theory Spec2Isabelle
  imports Main "HOL-Library.Sublist"
begin

section \<open>The chat widget of scripts.js\<close>

text \<open>
  A shallow embedding of the request dispatcher (\<open>fetchWithRetry\<close>, \<open>sendMessage\<close>),
  the transcript renderer (\<open>addMessage\<close>, \<open>setLoadingState\<close>, the clear-chat and
  new-chat handlers) and the session identifier of \<open>src/scripts.js\<close>. The browser is
  not part of the script: its network, its storage, its random numbers and clock, and
  what its HTML parser makes of a markup string are parameters of the functions below,
  and so are the handlers that run while an async function waits.

  JavaScript strings are sequences of UTF-16 code units; they are modelled as lists of
  natural numbers, and \<open>js\<close> turns an ASCII literal into such a list.
\<close>

subsection \<open>Strings\<close>

type_synonym jsstring = "nat list"

definition js :: "string \<Rightarrow> jsstring" where
  "js s = map of_char s"

text \<open>The line terminators of ECMAScript: LF, CR, LS and PS.\<close>

definition isLineTerminator :: "nat \<Rightarrow> bool" where
  "isLineTerminator c = (c = 10 \<or> c = 13 \<or> c = 8232 \<or> c = 8233)"

text \<open>
  The class \<open>\s\<close> of a regular expression, which is also what \<open>String.prototype.trim\<close>
  strips: the white space code points (TAB, VT, FF, SP, NBSP, the space separators,
  ZWNBSP) and the line terminators.
\<close>

definition isWhiteSpace :: "nat \<Rightarrow> bool" where
  "isWhiteSpace c =
     (c = 9 \<or> c = 10 \<or> c = 11 \<or> c = 12 \<or> c = 13 \<or> c = 32 \<or> c = 160 \<or> c = 5760
      \<or> (8192 \<le> c \<and> c \<le> 8202) \<or> c = 8232 \<or> c = 8233 \<or> c = 8239 \<or> c = 8287
      \<or> c = 12288 \<or> c = 65279)"

text \<open>\<open>s.trim()\<close>\<close>

definition trim :: "jsstring \<Rightarrow> jsstring" where
  "trim s = rev (dropWhile isWhiteSpace (rev (dropWhile isWhiteSpace s)))"

text \<open>\<open>s.includes(t)\<close>: \<open>t\<close> occurs in \<open>s\<close> as a contiguous run.\<close>

fun startsWith :: "jsstring \<Rightarrow> jsstring \<Rightarrow> bool" where
  "startsWith s [] = True"
| "startsWith [] (d # t) = False"
| "startsWith (c # s) (d # t) = (c = d \<and> startsWith s t)"

fun includes_str :: "jsstring \<Rightarrow> jsstring \<Rightarrow> bool" where
  "includes_str [] t = (t = [])"
| "includes_str (c # s) t = (startsWith (c # s) t \<or> includes_str s t)"

text \<open>The decimal numeral of a non-negative integer, as \<open>String(n)\<close> gives it.\<close>

fun decimal :: "nat \<Rightarrow> jsstring" where
  "decimal n = (if n < 10 then [48 + n] else decimal (n div 10) @ [48 + n mod 10])"

declare decimal.simps [simp del]

subsection \<open>Errors, responses and the network\<close>

text \<open>An exception value: every error the script meets has a name and a message string.\<close>

datatype jserror = JsError (name: jsstring) (message: jsstring)

text \<open>
  A value read from the parsed response body. The script observes of it only whether it
  is a string, whether it is truthy, and what \<open>String\<close> makes of it, so every value that
  is not a string (undefined, null, a number, a boolean, an object) is \<open>Other\<close> with its
  truthiness and its string conversion.
\<close>

datatype jsval = Str jsstring | Other bool jsstring

fun truthy :: "jsval \<Rightarrow> bool" where
  "truthy (Str s) = (s \<noteq> [])"
| "truthy (Other b s) = b"

fun toString :: "jsval \<Rightarrow> jsstring" where
  "toString (Str s) = s"
| "toString (Other b s) = s"

text \<open>
  What \<open>response.json()\<close> gives: a rejection (the body is not JSON), the value
  \<open>null\<close> (reading a property of it throws), or a value with its properties
  \<open>error\<close> and \<open>response\<close> (both undefined, that is \<open>Other False\<close>, where the
  value has no such property).
\<close>

datatype body = BadJson jserror | JsonNull | Json (error_of: jsval) (response_of: jsval)

datatype response = Response (status: nat) (body: body)

text \<open>\<open>response.ok\<close>: the status is in the range 200 to 299.\<close>

definition ok :: "response \<Rightarrow> bool" where
  "ok r = (200 \<le> status r \<and> status r \<le> 299)"

text \<open>One call of \<open>fetch\<close> resolves with a response or rejects with an error.\<close>

datatype fetch_result = Resolves response | Rejects jserror

subsection \<open>The transcript and the observable events\<close>

text \<open>
  What an entry shows: a text node, or the nodes the browser parsed from a markup
  string. \<open>InnerHTML m k\<close> stands for the nodes parsed from \<open>m\<close> from which the
  script has since removed \<open>k\<close> nodes (line 265 can do that, see
  \<open>setLoadingState\<close>).
\<close>

datatype content = TextContent jsstring | InnerHTML jsstring nat

text \<open>
  The children of \<open>#chat-messages\<close>: a message of \<open>addMessage\<close> with its sender class
  and its text node or markup, the typing indicator with the handle of its dot timer, a
  message of \<open>addUIMessage\<close>, and the greeting that the clear-chat and new-chat
  handlers write. The time stamp of an entry is not modelled.
\<close>

datatype element =
    Message jsstring content
  | TypingIndicator nat
  | UIMessage bool jsstring
  | Greeting jsstring

text \<open>
  The events of a run: a call of \<open>fetch\<close>, a wait between two calls, the reading of
  the response body, an element appended to or removed from the transcript, a node
  removed from inside an entry, and a timer started or cleared.
\<close>

datatype event =
    Fetch nat
  | Wait nat
  | ReadBody
  | Appended element
  | Removed element
  | RemovedFrom element
  | IntervalSet nat
  | IntervalCleared nat

subsection \<open>fetchWithRetry\<close>

definition MAX_RETRIES :: nat where
  "MAX_RETRIES = 3"

definition RETRY_DELAY :: nat where
  "RETRY_DELAY = 2000"

text \<open>
  How \<open>fetchWithRetry\<close> completes: it returns a response, it throws, or the loop runs
  out without entering its body (\<open>retries = 0\<close>) and the function returns undefined.
\<close>

datatype completion = Returned response | ReturnedUndefined | Threw jserror

fun later :: "event list \<Rightarrow> event list \<times> completion \<Rightarrow> event list \<times> completion" where
  "later evs (tr, out) = (evs @ tr, out)"

text \<open>
  The loop \<open>for (let i = 0; i < retries; i++)\<close>. The network is the sequence \<open>net\<close> of
  the results of the successive calls of \<open>fetch\<close>; the trace lists each call and each
  wait between two calls.
\<close>

function fetchLoop :: "(nat \<Rightarrow> fetch_result) \<Rightarrow> nat \<Rightarrow> nat \<Rightarrow> event list \<times> completion" where
  "fetchLoop net retries i =
     (if i < retries then
        (case net i of
           Resolves r \<Rightarrow>
             if ok r \<or> (400 \<le> status r \<and> status r < 500) then ([Fetch i], Returned r)
             else if i < retries - 1 then
               later [Fetch i, Wait RETRY_DELAY] (fetchLoop net retries (i + 1))
             else ([Fetch i], Returned r)
         | Rejects e \<Rightarrow>
             if i < retries - 1 \<and> name e \<noteq> js ''AbortError'' then
               later [Fetch i, Wait RETRY_DELAY] (fetchLoop net retries (i + 1))
             else ([Fetch i], Threw e))
      else ([], ReturnedUndefined))"
  by pat_completeness auto
termination
  by (relation "measure (\<lambda>(net, retries, i). retries - i)") auto

declare fetchLoop.simps [simp del]

definition fetchWithRetry :: "(nat \<Rightarrow> fetch_result) \<Rightarrow> nat \<Rightarrow> event list \<times> completion" where
  "fetchWithRetry net retries = fetchLoop net retries 0"

text \<open>The number of calls of \<open>fetch\<close> in a trace, and the outcome one call stands for.\<close>

definition attempts :: "event list \<Rightarrow> nat" where
  "attempts tr = length (filter (\<lambda>ev. case ev of Fetch i \<Rightarrow> True | _ \<Rightarrow> False) tr)"

fun settle :: "fetch_result \<Rightarrow> completion" where
  "settle (Resolves r) = Returned r"
| "settle (Rejects e) = Threw e"

text \<open>
  The results the specification names as retried: a response in the range 500 to 599, and a
  rejection whose error is not an AbortError.
\<close>

fun transient :: "fetch_result \<Rightarrow> bool" where
  "transient (Resolves r) = (500 \<le> status r \<and> status r \<le> 599)"
| "transient (Rejects e) = (name e \<noteq> js ''AbortError'')"

text \<open>
  The results the specification names as final: a successful response and one in 400 to
  499.
\<close>

fun final :: "fetch_result \<Rightarrow> bool" where
  "final (Resolves r) = (ok r \<or> (400 \<le> status r \<and> status r \<le> 499))"
| "final (Rejects e) = False"

text \<open>\<open>schedule k\<close>: the calls 0 to \<open>k\<close> with the fixed delay between two of them.\<close>

fun schedule :: "nat \<Rightarrow> event list" where
  "schedule 0 = [Fetch 0]"
| "schedule (Suc k) = schedule k @ [Wait 2000, Fetch (Suc k)]"

text \<open>
  The results after which the loop leaves at once, whatever the attempt: the test of
  line 76 for a response, and an AbortError for a rejection.
\<close>

fun stops :: "fetch_result \<Rightarrow> bool" where
  "stops (Resolves r) = (ok r \<or> (400 \<le> status r \<and> status r < 500))"
| "stops (Rejects e) = (name e = js ''AbortError'')"

text \<open>The first of the three attempts that ends the loop of a dispatch.\<close>

definition firstStop :: "(nat \<Rightarrow> fetch_result) \<Rightarrow> nat" where
  "firstStop net = (if stops (net 0) then 0 else if stops (net 1) then 1 else 2)"

subsection \<open>The formatting of assistant messages\<close>

text \<open>
  The tail \<open>\s+(.+)$\<close> of the two line patterns, tried at the text after the marker.
  \<open>\s+\<close> is greedy and gives back one character at a time, so \<open>lineTail k s\<close> tries
  \<open>k\<close>, \<open>k - 1\<close>, ... 1 characters of white space in turn. \<open>(.+)\<close> then needs one
  character that is not a line terminator and takes all of them up to the next line
  terminator or the end of the text, where \<open>$\<close> holds (flag \<open>m\<close>). The result is the
  number of white space characters taken and the group \<open>$1\<close>.
\<close>

fun lineTail :: "nat \<Rightarrow> jsstring \<Rightarrow> (nat \<times> jsstring) option" where
  "lineTail 0 s = None"
| "lineTail (Suc k) s =
     (case drop (Suc k) s of
        [] \<Rightarrow> lineTail k s
      | c # r \<Rightarrow>
          if isLineTerminator c then lineTail k s
          else Some (Suc k, takeWhile (\<lambda>x. \<not> isLineTerminator x) (c # r)))"

text \<open>
  \<open>text.replace(/^M\s+(.+)$/gm, pre + '$1' + post)\<close> for a marker character \<open>M\<close>:
  the scan goes from left to right, \<open>bol\<close> says whether \<open>^\<close> holds at the current
  position (the start of the text, or just after a line terminator), a match is replaced
  and the scan goes on after it, and any other character is copied.
\<close>

fun lineRule :: "nat \<Rightarrow> jsstring \<Rightarrow> jsstring \<Rightarrow> bool \<Rightarrow> jsstring \<Rightarrow> jsstring" where
  "lineRule m pre post bol [] = []"
| "lineRule m pre post bol (c # s) =
     (if bol \<and> c = m then
        (case lineTail (length (takeWhile isWhiteSpace s)) s of
           Some (k, g) \<Rightarrow>
             pre @ g @ post @ lineRule m pre post (isLineTerminator (last g)) (drop (k + length g) s)
         | None \<Rightarrow> c # lineRule m pre post (isLineTerminator c) s)
      else c # lineRule m pre post (isLineTerminator c) s)"

text \<open>\<open>.replace(/^#\s+(.+)$/gm, '<strong>$1</strong>')\<close>\<close>

definition headers :: "jsstring \<Rightarrow> jsstring" where
  "headers text = lineRule 35 (js ''<strong>'') (js ''</strong>'') True text"

text \<open>
  The tail \<open>(.*?)\*\*\<close> of the bold pattern: the lazy group grows by one character that
  is not a line terminator until two asterisks follow. The result is the group.
\<close>

fun closing :: "jsstring \<Rightarrow> jsstring option" where
  "closing (c # d # s) =
     (if c = 42 \<and> d = 42 then Some []
      else if isLineTerminator c then None
      else map_option ((#) c) (closing (d # s)))"
| "closing s = None"

text \<open>\<open>.replace(/\*\*(.*?)\*\*/g, '<strong>$1</strong>')\<close>\<close>

fun bold :: "jsstring \<Rightarrow> jsstring" where
  "bold (c # d # s) =
     (if c = 42 \<and> d = 42 then
        (case closing s of
           Some g \<Rightarrow> js ''<strong>'' @ g @ js ''</strong>'' @ bold (drop (length g + 2) s)
         | None \<Rightarrow> c # bold (d # s))
      else c # bold (d # s))"
| "bold s = s"

text \<open>\<open>.replace(/^-\s+(.+)$/gm, '\<bullet> $1')\<close>: the bullet is U+2022, then a space.\<close>

definition bullets :: "jsstring \<Rightarrow> jsstring" where
  "bullets text = lineRule 45 [8226, 32] [] True text"

text \<open>\<open>.split('\n\n').join('</p><p>')\<close>\<close>

fun paragraphs :: "jsstring \<Rightarrow> jsstring" where
  "paragraphs (c # d # s) =
     (if c = 10 \<and> d = 10 then js ''</p><p>'' @ paragraphs s else c # paragraphs (d # s))"
| "paragraphs s = s"

text \<open>\<open>.split('\n').join('<br>')\<close>\<close>

fun lineBreaks :: "jsstring \<Rightarrow> jsstring" where
  "lineBreaks [] = []"
| "lineBreaks (c # s) = (if c = 10 then js ''<br>'' @ lineBreaks s else c # lineBreaks s)"

text \<open>The chain of lines 176 to 186 and the template of line 188.\<close>

definition formattedText :: "jsstring \<Rightarrow> jsstring" where
  "formattedText text = lineBreaks (paragraphs (bullets (bold (headers text))))"

definition botMarkup :: "jsstring \<Rightarrow> jsstring" where
  "botMarkup text = js ''<p>'' @ formattedText text @ js ''</p>''"

subsection \<open>The widget\<close>

text \<open>
  The state the script works on: the children of \<open>#chat-messages\<close>, the input field
  and the send button (the page is taken to hold all three), the running interval
  timers with the last handle \<open>setInterval\<close> gave out (handles are positive), and the
  events so far. Scrolling and console output are left out.
\<close>

record widget =
  chatMessages :: "element list"
  inputValue :: jsstring
  inputDisabled :: bool
  buttonDisabled :: bool
  buttonLabel :: content
  intervals :: "nat list"
  lastTimer :: nat
  events :: "event list"

text \<open>\<open>chatMessages.appendChild(el)\<close>\<close>

definition appendChild :: "element \<Rightarrow> widget \<Rightarrow> widget" where
  "appendChild el w = w\<lparr>chatMessages := chatMessages w @ [el], events := events w @ [Appended el]\<rparr>"

text \<open>
  \<open>addMessage(text, sender)\<close>. For the sender \<open>bot\<close> the text is formatted, which
  calls \<open>text.replace\<close> and so throws a TypeError when the text is not a string; the
  markup goes to \<open>innerHTML\<close>. For any other sender the text goes to
  \<open>textContent\<close>.
\<close>

definition addMessage :: "jsval \<Rightarrow> jsstring \<Rightarrow> widget \<Rightarrow> jserror option \<times> widget" where
  "addMessage text sender w =
     (if sender = js ''bot'' then
        (case text of
           Str s \<Rightarrow> (None, appendChild (Message sender (InnerHTML (botMarkup s) 0)) w)
         | Other b s \<Rightarrow>
             (Some (JsError (js ''TypeError'') (js ''text.replace is not a function'')), w))
      else (None, appendChild (Message sender (TextContent (toString text))) w))"


text \<open>
  The HTML parser of the browser is not part of the script. The script observes of it
  only whether the nodes of an entry hold an element with the id
  \<open>typing-indicator\<close>, which markup from the server can bring in, as it is not
  escaped. That is a parameter of the model: \<open>holds m k\<close> says that the nodes parsed
  from the markup \<open>m\<close> still hold such an element after \<open>k\<close> of them were removed.
\<close>

type_synonym parser = "jsstring \<Rightarrow> nat \<Rightarrow> bool"

text \<open>
  Whether \<open>document.getElementById('typing-indicator')\<close> finds its element in this
  child of the transcript: the typing indicator has the id itself, an entry set by
  \<open>innerHTML\<close> has what the parser made of its markup, and the other children have
  no element with an id. The page outside the transcript is taken to have none either.
\<close>

fun holdsIndicator :: "parser \<Rightarrow> element \<Rightarrow> bool" where
  "holdsIndicator holds (TypingIndicator h) = True"
| "holdsIndicator holds (Message s (InnerHTML m k)) = holds m k"
| "holdsIndicator holds el = False"

text \<open>
  \<open>typingIndicator.remove()\<close> for the element found in the child \<open>el\<close>, the first
  such child: the typing indicator leaves the transcript, an entry loses the node found
  inside it.
\<close>

fun removeFound :: "element \<Rightarrow> element list \<Rightarrow> element list" where
  "removeFound el [] = []"
| "removeFound el (x # xs) =
     (if x = el then
        (case el of
           Message s (InnerHTML m k) \<Rightarrow> Message s (InnerHTML m (Suc k)) # xs
         | _ \<Rightarrow> xs)
      else x # removeFound el xs)"

text \<open>
  \<open>setLoadingState(isLoading)\<close>. Loading: the controls are disabled, the typing
  indicator is appended and its dot timer started. Not loading: the controls are enabled
  and the first element of the document with the id \<open>typing-indicator\<close>, if there is
  one, is removed; its timer is cleared before when it has a truthy \<open>dotInterval\<close>,
  which only the typing indicator of the script has.
\<close>

definition setLoadingState :: "parser \<Rightarrow> bool \<Rightarrow> widget \<Rightarrow> widget" where
  "setLoadingState holds isLoading w =
     (if isLoading then
        (let h = Suc (lastTimer w);
             w1 = w\<lparr>inputDisabled := True, buttonDisabled := True,
                    buttonLabel := InnerHTML (js ''<span class='' @ [34] @ js ''loading'' @ [34]
                      @ js ''>'' @ [9679, 9679, 9679] @ js ''</span>'') 0\<rparr>;
             w2 = appendChild (TypingIndicator h) w1
         in w2\<lparr>intervals := h # intervals w2, lastTimer := h,
                events := events w2 @ [IntervalSet h]\<rparr>)
      else
        (let w1 = w\<lparr>inputDisabled := False, buttonDisabled := False,
                    buttonLabel := TextContent (js ''Send'')\<rparr>
         in case find (holdsIndicator holds) (chatMessages w1) of
              None \<Rightarrow> w1
            | Some el \<Rightarrow>
                (let w2 = (case el of
                             TypingIndicator h \<Rightarrow>
                               if h \<noteq> 0 then
                                 w1\<lparr>intervals := removeAll h (intervals w1),
                                    events := events w1 @ [IntervalCleared h]\<rparr>
                               else w1
                           | _ \<Rightarrow> w1)
                 in w2\<lparr>chatMessages := removeFound el (chatMessages w2),
                        events := events w2 @
                          [case el of TypingIndicator h \<Rightarrow> Removed el | _ \<Rightarrow> RemovedFrom el]\<rparr>)))"

text \<open>The user-facing text the catch block of \<open>sendMessage\<close> chooses (lines 139 to 151).\<close>

definition errorText :: "bool \<Rightarrow> jserror \<Rightarrow> jsstring" where
  "errorText onLine e =
     (if \<not> onLine then
        js ''Network connection lost. Please check your internet connection and try again.''
      else if includes_str (message e) (js ''Failed to fetch'') \<or> name e = js ''TypeError'' then
        js ''Unable to connect to the AI service. Please make sure the server is running on localhost:3001.''
      else if includes_str (message e) (js ''loading'') then
        js ''The AI model is starting up. Please wait a moment and try again.''
      else if includes_str (message e) (js ''rate limit'') then
        js ''Too many requests. Please wait a moment before sending another message.''
      else if message e \<noteq> [] then js ''Error: '' @ message e
      else js ''I apologize, but I'm having trouble responding right now.'')"

definition catchBlock :: "bool \<Rightarrow> jserror \<Rightarrow> widget \<Rightarrow> jserror option \<times> widget" where
  "catchBlock onLine e w = addMessage (Str (errorText onLine e)) (js ''error'') w"

text \<open>The TypeError of reading a property of \<open>null\<close> or \<open>undefined\<close>.\<close>

definition cannotRead :: "jsstring \<Rightarrow> jsstring \<Rightarrow> jserror" where
  "cannotRead v p =
     JsError (js ''TypeError'') (js ''Cannot read properties of '' @ v @ js '' (reading ''
       @ [39] @ p @ [39] @ js '')'')"

subsection \<open>The handlers that run beside a dispatch\<close>

text \<open>\<open>addUIMessage(content, isUser)\<close>\<close>

definition addUIMessage :: "jsstring \<Rightarrow> bool \<Rightarrow> widget \<Rightarrow> widget" where
  "addUIMessage text isUser w = appendChild (UIMessage isUser text) w"

text \<open>The submit handler of the form: the user's message at once.\<close>

definition submitForm :: "widget \<Rightarrow> widget" where
  "submitForm w =
     (let message = trim (inputValue w) in
      if message \<noteq> [] then (addUIMessage message True w)\<lparr>inputValue := []\<rparr> else w)"

definition responses :: "jsstring list" where
  "responses =
     [js ''I'm analyzing your question...'',
      js ''That's an interesting point. Here's what I think...'',
      js ''Thanks for your message. Let me help with that...'',
      js ''I understand what you're asking. Here's the information...'',
      js ''Great question! Here's what I found...'']"

text \<open>
  The simulated reply one second later; \<open>k\<close> is
  \<open>Math.floor(Math.random() * responses.length)\<close>, a number from 0 to 4.
\<close>

definition simulatedReply :: "nat \<Rightarrow> widget \<Rightarrow> widget" where
  "simulatedReply k w = addUIMessage (responses ! k) False w"

text \<open>
  Assigning \<open>innerHTML\<close> of \<open>#chat-messages\<close>: every child is removed and the
  greeting is the only child left.
\<close>

definition setInnerHTML :: "jsstring \<Rightarrow> widget \<Rightarrow> widget" where
  "setInnerHTML greeting w =
     w\<lparr>chatMessages := [Greeting greeting],
       events := events w @ map Removed (chatMessages w) @ [Appended (Greeting greeting)]\<rparr>"

definition clearChat :: "widget \<Rightarrow> widget" where
  "clearChat w =
     setInnerHTML ([55357, 56395] @ js '' Hello! I'm Botlynx. How can I help you today?'') w"

definition newChat :: "widget \<Rightarrow> widget" where
  "newChat w =
     setInnerHTML ([55357, 56395] @ js '' Hello! I'm Botlynx. What would you like to talk about today?'') w"

text \<open>
  The handlers that can run at any time, also while a dispatch waits for the network:
  a call of \<open>addMessage\<close> from outside \<open>sendMessage\<close> (the health check reports a
  failure that way), the submit handler of the form and its simulated reply, and the
  clear-chat and new-chat buttons, which are never disabled.
\<close>

datatype handler =
    AddMessage jsval jsstring
  | SubmitForm
  | SimulatedReply nat
  | ClearChat
  | NewChat

fun handle :: "handler \<Rightarrow> widget \<Rightarrow> widget" where
  "handle (AddMessage text sender) w = snd (addMessage text sender w)"
| "handle SubmitForm w = submitForm w"
| "handle (SimulatedReply k) w = simulatedReply k w"
| "handle ClearChat w = clearChat w"
| "handle NewChat w = newChat w"

fun background :: "handler list \<Rightarrow> widget \<Rightarrow> widget" where
  "background [] w = w"
| "background (x # xs) w = background xs (handle x w)"

subsection \<open>sendMessage\<close>

text \<open>
  \<open>sendMessage\<close> is an async function: at each \<open>await\<close> it gives way to the event
  loop, and the handlers above can run before it goes on. The awaits are those of
  \<open>fetchWithRetry\<close> (each call of \<open>fetch\<close> and each wait, the events of its trace)
  and \<open>response.json()\<close>. \<open>during k\<close> lists the handlers that run at the \<open>k\<close>-th
  await of the dispatch. A second \<open>sendMessage\<close> cannot start there, since the key
  and click listeners test the disabled controls.
\<close>

fun awaiting :: "(nat \<Rightarrow> handler list) \<Rightarrow> nat \<Rightarrow> event list \<Rightarrow> widget \<Rightarrow> widget" where
  "awaiting during k [] w = w"
| "awaiting during k (ev # tr) w =
     awaiting during (Suc k) tr (background (during k) (w\<lparr>events := events w @ [ev]\<rparr>))"

text \<open>
  The try block of \<open>sendMessage\<close> (lines 110 to 135): the result is the error thrown
  in it, if any, and the widget at that point.
\<close>

definition tryBlock ::
  "(nat \<Rightarrow> fetch_result) \<Rightarrow> (nat \<Rightarrow> handler list) \<Rightarrow> widget \<Rightarrow> jserror option \<times> widget" where
  "tryBlock net during w =
     (case fetchWithRetry net MAX_RETRIES of
        (tr, out) \<Rightarrow>
          (let w1 = awaiting during 0 tr w in
           case out of
             Threw e \<Rightarrow> (Some e, w1)
           | ReturnedUndefined \<Rightarrow> (Some (cannotRead (js ''undefined'') (js ''status'')), w1)
           | Returned r \<Rightarrow>
               (let w2 = background (during (length tr)) (w1\<lparr>events := events w1 @ [ReadBody]\<rparr>) in
                case body r of
                  BadJson e \<Rightarrow> (Some e, w2)
                | JsonNull \<Rightarrow>
                    (Some (cannotRead (js ''null'')
                       (if ok r then js ''response'' else js ''error'')), w2)
                | Json err resp \<Rightarrow>
                    if \<not> ok r then
                      (Some (JsError (js ''Error'')
                         (if truthy err then toString err
                          else js ''Server error: '' @ decimal (status r))), w2)
                    else if truthy resp then addMessage resp (js ''bot'') w2
                    else addMessage
                      (Str (js ''I received your message but couldn't generate a proper response. Please try again.''))
                      (js ''bot'') w2)))"

text \<open>
  \<open>sendMessage()\<close>, with the parser, the value of \<open>navigator.onLine\<close>, the network and
  the handlers that run at the awaits of this dispatch. The result is the error that
  leaves the function, if any, and the widget.
\<close>

definition sendMessage ::
  "parser \<Rightarrow> bool \<Rightarrow> (nat \<Rightarrow> fetch_result) \<Rightarrow> (nat \<Rightarrow> handler list) \<Rightarrow> widget
     \<Rightarrow> jserror option \<times> widget" where
  "sendMessage holds onLine net during w =
     (let message = trim (inputValue w) in
      if message = [] then (None, w)
      else
        (case addMessage (Str message) (js ''user'') w of
           (Some e, w1) \<Rightarrow> (Some e, w1)
         | (None, w1) \<Rightarrow>
             (let w2 = setLoadingState holds True (w1\<lparr>inputValue := []\<rparr>);
                  (r, w3) = tryBlock net during w2;
                  (r', w4) = (case r of None \<Rightarrow> (None, w3) | Some e \<Rightarrow> catchBlock onLine e w3)
              in (r', setLoadingState holds False w4))))"

text \<open>The widget of a page just loaded: no entry, empty input, controls enabled.\<close>

definition freshWidget :: widget where
  "freshWidget =
     \<lparr>chatMessages = [], inputValue = [], inputDisabled = False, buttonDisabled = False,
      buttonLabel = TextContent (js ''Send''), intervals = [], lastTimer = 0, events = []\<rparr>"

text \<open>
  One operation on the widget: the user edits the input field, a dispatch from its
  start to its end, or one of the handlers on its own.
\<close>

datatype operation =
    TypeInput jsstring
  | Send bool "nat \<Rightarrow> fetch_result" "nat \<Rightarrow> handler list"
  | Handler handler


subsection \<open>What the specification expects of a dispatch\<close>







subsection \<open>The session identifier\<close>

text \<open>
  \<open>sessionStorage\<close>: reading it or writing to it may throw (storage blocked, quota
  used up); otherwise it maps keys to strings.
\<close>

record storage =
  readable :: bool
  writable :: bool
  items :: "jsstring \<rightharpoonup> jsstring"

definition getItem :: "storage \<Rightarrow> jsstring \<Rightarrow> jserror + jsstring option" where
  "getItem st k =
     (if readable st then Inr (items st k)
      else Inl (JsError (js ''SecurityError'') (js ''The operation is insecure.'')))"

definition setItem :: "storage \<Rightarrow> jsstring \<Rightarrow> jsstring \<Rightarrow> jserror + storage" where
  "setItem st k v =
     (if writable st then Inr (st\<lparr>items := (items st)(k \<mapsto> v)\<rparr>)
      else Inl (JsError (js ''QuotaExceededError'') (js ''The quota has been exceeded.'')))"

text \<open>
  \<open>generateSessionId()\<close>; \<open>rnd\<close> is the string \<open>Math.random().toString(36)\<close> and
  \<open>now\<close> is \<open>Date.now()\<close>.
\<close>

definition generateSessionId :: "jsstring \<Rightarrow> nat \<Rightarrow> jsstring" where
  "generateSessionId rnd now = js ''session_'' @ take 9 (drop 2 rnd) @ js ''_'' @ decimal now"

text \<open>
  Lines 46 to 50, at the top level of the script: the stored identifier when there is
  a non-empty one, otherwise a new one, which is stored. No exception is caught.
\<close>

definition initSession :: "storage \<Rightarrow> jsstring \<Rightarrow> nat \<Rightarrow> jserror + jsstring \<times> storage" where
  "initSession st rnd now =
     (case getItem st (js ''chatSessionId'') of
        Inl e \<Rightarrow> Inl e
      | Inr stored \<Rightarrow>
          (if stored \<noteq> None \<and> stored \<noteq> Some [] then Inr (the stored, st)
           else
             (let sessionId = generateSessionId rnd now in
              case setItem st (js ''chatSessionId'') sessionId of
                Inl e \<Rightarrow> Inl e
              | Inr st' \<Rightarrow> Inr (sessionId, st'))))"

text \<open>
  The script as a whole: an exception at the top level ends it, so the listeners of
  lines 271 to 297 that call \<open>sendMessage\<close> are registered only when the session
  identifier has been set up.
\<close>

record page =
  sessionId :: jsstring
  sessionStore :: storage
  listening :: bool

definition loadScript :: "storage \<Rightarrow> jsstring \<Rightarrow> nat \<Rightarrow> jserror + page" where
  "loadScript st rnd now =
     (case initSession st rnd now of
        Inl e \<Rightarrow> Inl e
      | Inr (sid, st') \<Rightarrow> Inr \<lparr>sessionId = sid, sessionStore = st', listening = True\<rparr>)"


section \<open>Properties\<close>

lemma js_user_not_bot: "js ''user'' \<noteq> js ''bot''" "js ''error'' \<noteq> js ''bot''"
  by (simp_all add: js_def)

subsection \<open>The retry policy\<close>

lemma fetchLoop_last: "fetchLoop net (Suc i) i = ([Fetch i], settle (net i))"
  by (subst fetchLoop.simps) (simp split: fetch_result.split)

lemma fetchLoop_step:
  "Suc i < retries \<Longrightarrow>
   fetchLoop net retries i =
     (if stops (net i) then ([Fetch i], settle (net i))
      else later [Fetch i, Wait 2000] (fetchLoop net retries (Suc i)))"
proof -
  assume "Suc i < retries"
  then have "i < retries" "i < retries - 1" by simp_all
  then show ?thesis
    by (subst fetchLoop.simps) (simp add: RETRY_DELAY_def split: fetch_result.split)
qed

lemma transient_not_stops: "transient x \<Longrightarrow> \<not> stops x"
  by (cases x) (auto simp: ok_def)

lemma final_stops: "final x \<Longrightarrow> stops x"
  by (cases x) auto

lemma fetchWithRetry_three:
  "fetchWithRetry net MAX_RETRIES = (schedule (firstStop net), settle (net (firstStop net)))"
proof -
  have two: "fetchLoop net 3 2 = ([Fetch 2], settle (net 2))"
    using fetchLoop_last [of net 2] by (simp add: eval_nat_numeral)
  have one: "fetchLoop net 3 1 =
      (if stops (net 1) then ([Fetch 1], settle (net 1))
       else ([Fetch 1, Wait 2000, Fetch 2], settle (net 2)))"
    using fetchLoop_step [of 1 3 net] two by (simp add: eval_nat_numeral)
  have zero: "fetchLoop net 3 0 =
      (if stops (net 0) then ([Fetch 0], settle (net 0))
       else later [Fetch 0, Wait 2000] (fetchLoop net 3 1))"
    using fetchLoop_step [of 0 3 net] by simp
  show ?thesis
    unfolding fetchWithRetry_def MAX_RETRIES_def zero one firstStop_def
    by (simp add: eval_nat_numeral)
qed

lemma firstStop_at:
  "k < 3 \<Longrightarrow> \<forall>j<k. transient (net j) \<Longrightarrow> stops (net k) \<or> k = 2 \<Longrightarrow> firstStop net = k"
proof -
  assume k: "k < 3" and tr: "\<forall>j<k. transient (net j)" and st: "stops (net k) \<or> k = 2"
  from k consider "k = 0" | "k = 1" | "k = 2" by linarith
  then show ?thesis
  proof cases
    case 1 with st show ?thesis by (simp add: firstStop_def)
  next
    case 2 with st tr transient_not_stops [of "net 0"] show ?thesis by (simp add: firstStop_def)
  next
    case 3 with tr transient_not_stops [of "net 0"] transient_not_stops [of "net 1"]
    show ?thesis by (simp add: firstStop_def)
  qed
qed

lemma attempts_schedule: "attempts (schedule k) = Suc k"
  by (induction k) (simp_all add: attempts_def)

lemma firstStop_le: "firstStop net \<le> 2"
  by (simp add: firstStop_def)

text \<open>
  C1. A dispatch makes at most 3 attempts. A successful response or one in 400 to 499
  is returned at once, and an AbortError is thrown at once. A response in 500 to 599 and
  any other rejection are followed by a wait of 2000 ms and the next attempt, as long as
  an attempt is left; after three such results the third is the outcome. Three responses
  500 make exactly 3 attempts, a response 400 makes exactly 1.
\<close>

theorem fetchWithRetry_policy:
  "attempts (fst (fetchWithRetry net MAX_RETRIES)) \<le> 3
   \<and> (\<forall>k<3. (\<forall>j<k. transient (net j)) \<and> final (net k) \<longrightarrow>
         fetchWithRetry net MAX_RETRIES = (schedule k, settle (net k)))
   \<and> (\<forall>k<3. \<forall>e. (\<forall>j<k. transient (net j)) \<and> net k = Rejects e \<and> name e = js ''AbortError'' \<longrightarrow>
         fetchWithRetry net MAX_RETRIES = (schedule k, Threw e))
   \<and> (\<forall>k<2. (\<forall>j\<le>k. transient (net j)) \<longrightarrow>
         take (2 * k + 3) (fst (fetchWithRetry net MAX_RETRIES)) = schedule (Suc k))
   \<and> ((\<forall>j<3. transient (net j)) \<longrightarrow>
         fetchWithRetry net MAX_RETRIES = (schedule 2, settle (net 2)))
   \<and> ((\<forall>j<3. \<exists>b. net j = Resolves (Response 500 b)) \<longrightarrow>
         attempts (fst (fetchWithRetry net MAX_RETRIES)) = 3)
   \<and> ((\<exists>b. net 0 = Resolves (Response 400 b)) \<longrightarrow>
         attempts (fst (fetchWithRetry net MAX_RETRIES)) = 1)"
proof (intro conjI allI impI)
  show "attempts (fst (fetchWithRetry net MAX_RETRIES)) \<le> 3"
    using firstStop_le [of net] by (simp add: fetchWithRetry_three attempts_schedule)
next
  fix k assume "k < 3" "(\<forall>j<k. transient (net j)) \<and> final (net k)"
  then have "firstStop net = k" by (intro firstStop_at) (auto dest: final_stops)
  then show "fetchWithRetry net MAX_RETRIES = (schedule k, settle (net k))"
    by (simp add: fetchWithRetry_three)
next
  fix k e assume "k < 3" "(\<forall>j<k. transient (net j)) \<and> net k = Rejects e \<and> name e = js ''AbortError''"
  then have "firstStop net = k" "settle (net k) = Threw e" by (auto intro!: firstStop_at)
  then show "fetchWithRetry net MAX_RETRIES = (schedule k, Threw e)"
    by (simp add: fetchWithRetry_three)
next
  fix k :: nat assume k: "k < 2" and tr: "\<forall>j\<le>k. transient (net j)"
  from k consider "k = 0" | "k = 1" by linarith
  then show "take (2 * k + 3) (fst (fetchWithRetry net MAX_RETRIES)) = schedule (Suc k)"
  proof cases
    case 1
    with tr have "\<not> stops (net 0)" by (simp add: transient_not_stops)
    with 1 show ?thesis by (simp add: fetchWithRetry_three firstStop_def eval_nat_numeral)
  next
    case 2
    with tr have "\<not> stops (net 0)" "\<not> stops (net 1)" by (simp_all add: transient_not_stops)
    with 2 show ?thesis by (simp add: fetchWithRetry_three firstStop_def eval_nat_numeral)
  qed
next
  assume "\<forall>j<3. transient (net j)"
  then have "firstStop net = 2" by (intro firstStop_at) auto
  then show "fetchWithRetry net MAX_RETRIES = (schedule 2, settle (net 2))"
    by (simp add: fetchWithRetry_three)
next
  assume a: "\<forall>j<3. \<exists>b. net j = Resolves (Response 500 b)"
  have "\<forall>j<3. transient (net j)"
  proof (intro allI impI)
    fix j :: nat assume "j < 3"
    with a obtain b where "net j = Resolves (Response 500 b)" by blast
    then show "transient (net j)" by simp
  qed
  then have "firstStop net = 2" by (intro firstStop_at) auto
  then show "attempts (fst (fetchWithRetry net MAX_RETRIES)) = 3"
    by (simp add: fetchWithRetry_three attempts_schedule)
next
  assume "\<exists>b. net 0 = Resolves (Response 400 b)"
  then have "stops (net 0)" by auto
  then have "firstStop net = 0" by (simp add: firstStop_def)
  then show "attempts (fst (fetchWithRetry net MAX_RETRIES)) = 1"
    by (simp add: fetchWithRetry_three attempts_def)
qed

theorem fetchWithRetry_policy_witness:
  "fetchWithRetry (\<lambda>i. Resolves (Response 500 JsonNull)) MAX_RETRIES =
     ([Fetch 0, Wait 2000, Fetch 1, Wait 2000, Fetch 2], Returned (Response 500 JsonNull))
   \<and> attempts (fst (fetchWithRetry (\<lambda>i. Resolves (Response 500 JsonNull)) MAX_RETRIES)) = 3
   \<and> fetchWithRetry (\<lambda>i. Resolves (Response 400 JsonNull)) MAX_RETRIES =
     ([Fetch 0], Returned (Response 400 JsonNull))
   \<and> attempts (fst (fetchWithRetry (\<lambda>i. Resolves (Response 400 JsonNull)) MAX_RETRIES)) = 1
   \<and> fetchWithRetry (\<lambda>i. if i = 0 then Rejects (JsError (js ''TypeError'') (js ''Failed to fetch''))
          else Resolves (Response 200 JsonNull)) MAX_RETRIES =
     ([Fetch 0, Wait 2000, Fetch 1], Returned (Response 200 JsonNull))
   \<and> fetchWithRetry (\<lambda>i. Rejects (JsError (js ''AbortError'') [])) MAX_RETRIES =
     ([Fetch 0], Threw (JsError (js ''AbortError'') []))"
proof -
  let ?n500 = "\<lambda>i::nat. Resolves (Response 500 JsonNull)"
  let ?n400 = "\<lambda>i::nat. Resolves (Response 400 JsonNull)"
  let ?nfail = "\<lambda>i::nat. if i = 0 then Rejects (JsError (js ''TypeError'') (js ''Failed to fetch''))
          else Resolves (Response 200 JsonNull)"
  let ?nabort = "\<lambda>i::nat. Rejects (JsError (js ''AbortError'') [])"
  note stop = fetchWithRetry_policy [THEN conjunct2, THEN conjunct1, rule_format]
  note abort = fetchWithRetry_policy [THEN conjunct2, THEN conjunct2, THEN conjunct1, rule_format]
  note cap = fetchWithRetry_policy [THEN conjunct2, THEN conjunct2, THEN conjunct2, THEN conjunct2,
      THEN conjunct1, rule_format]
  note three = fetchWithRetry_policy [THEN conjunct2, THEN conjunct2, THEN conjunct2, THEN conjunct2,
      THEN conjunct2, THEN conjunct1, rule_format]
  note single = fetchWithRetry_policy [THEN conjunct2, THEN conjunct2, THEN conjunct2, THEN conjunct2,
      THEN conjunct2, THEN conjunct2, rule_format]
  have 1: "fetchWithRetry ?n500 MAX_RETRIES = (schedule 2, settle (?n500 2))"
    by (rule cap) simp
  have 2: "attempts (fst (fetchWithRetry ?n500 MAX_RETRIES)) = 3"
    by (rule three) simp
  have 3: "fetchWithRetry ?n400 MAX_RETRIES = (schedule 0, settle (?n400 0))"
    by (rule stop) simp_all
  have 4: "attempts (fst (fetchWithRetry ?n400 MAX_RETRIES)) = 1"
    by (rule single) simp
  have 5: "fetchWithRetry ?nfail MAX_RETRIES = (schedule 1, settle (?nfail 1))"
    by (rule stop) (simp_all add: js_def ok_def)
  have 6: "fetchWithRetry ?nabort MAX_RETRIES = (schedule 0, Threw (JsError (js ''AbortError'') []))"
    by (rule abort) simp_all
  from 1 2 3 4 5 6 show ?thesis by (simp add: eval_nat_numeral)
qed

subsection \<open>The formatter, match by match\<close>

lemma lineRule_none: "m \<notin> set s \<Longrightarrow> lineRule m pre post bol s = s"
  by (induction s arbitrary: bol) auto

lemma bold_none: "42 \<notin> set s \<Longrightarrow> bold s = s"
  by (induction s rule: bold.induct) auto

lemma paragraphs_none: "10 \<notin> set s \<Longrightarrow> paragraphs s = s"
  by (induction s rule: paragraphs.induct) auto

lemma lineBreaks_none: "10 \<notin> set s \<Longrightarrow> lineBreaks s = s"
  by (induction s) auto

lemma formattedText_plain:
  "35 \<notin> set text \<Longrightarrow> 42 \<notin> set text \<Longrightarrow> 45 \<notin> set text \<Longrightarrow> 10 \<notin> set text \<Longrightarrow>
   formattedText text = text"
  by (simp add: formattedText_def headers_def bullets_def lineRule_none bold_none
      paragraphs_none lineBreaks_none)




lemma lineRule_break:
  "isLineTerminator l \<Longrightarrow> lineRule m pre post False (l # s) = l # lineRule m pre post True s"
  by simp


















subsection \<open>Blank input and the failure texts\<close>

lemma trim_blank: "\<forall>c\<in>set s. isWhiteSpace c \<Longrightarrow> trim s = []"
proof -
  assume "\<forall>c\<in>set s. isWhiteSpace c"
  then have d: "dropWhile isWhiteSpace s = []" by (induction s) auto
  show ?thesis unfolding trim_def d by simp
qed

text \<open>
  C6. When the input is empty or holds white space only, \<open>sendMessage\<close> returns at
  once, whatever the parser, the network and the other handlers: the widget is the one
  before, so no entry was appended, no call of \<open>fetch\<close> was made (no event was added)
  and the controls were not disabled.
\<close>

theorem sendMessage_blank:
  "\<forall>c\<in>set (inputValue w). isWhiteSpace c \<Longrightarrow> sendMessage holds onLine net during w = (None, w)"
  by (simp add: sendMessage_def trim_blank)

theorem sendMessage_blank_witness:
  "sendMessage (\<lambda>m k. False) True
       (\<lambda>i. Resolves (Response 200 (Json (Other False []) (Str (js ''hello''))))) (\<lambda>k. [])
     (freshWidget\<lparr>inputValue := [32, 9, 10, 32]\<rparr>) = (None, freshWidget\<lparr>inputValue := [32, 9, 10, 32]\<rparr>)
   \<and> sendMessage (\<lambda>m k. False) True
       (\<lambda>i. Resolves (Response 200 (Json (Other False []) (Str (js ''hello''))))) (\<lambda>k. [ClearChat])
     freshWidget = (None, freshWidget)"
proof -
  have a: "\<forall>c\<in>set (inputValue (freshWidget\<lparr>inputValue := [32, 9, 10, 32]\<rparr>)). isWhiteSpace c"
    by (simp add: isWhiteSpace_def)
  have b: "\<forall>c\<in>set (inputValue freshWidget). isWhiteSpace c"
    by (simp add: freshWidget_def)
  show ?thesis
    using sendMessage_blank [OF a] sendMessage_blank [OF b] by simp
qed

text \<open>
  C5. The text of the failure entry is chosen in this order: the connectivity text when
  the browser is offline; else the service text when the message contains
  \<open>Failed to fetch\<close> or the error is a TypeError; else the warming-up text when the
  message contains \<open>loading\<close>; else the rate-limit text when it contains
  \<open>rate limit\<close>; otherwise the generic text, which is \<open>Error: \<close> followed by the
  message, or the plain apology when the message is empty. The catch block appends
  exactly this text as an entry of the sender \<open>error\<close>.
\<close>

theorem errorText_priority:
  "(\<not> onLine \<longrightarrow>
      errorText onLine e =
        js ''Network connection lost. Please check your internet connection and try again.'')
   \<and> (onLine \<and> (includes_str (message e) (js ''Failed to fetch'') \<or> name e = js ''TypeError'') \<longrightarrow>
      errorText onLine e =
        js ''Unable to connect to the AI service. Please make sure the server is running on localhost:3001.'')
   \<and> (onLine \<and> \<not> (includes_str (message e) (js ''Failed to fetch'') \<or> name e = js ''TypeError'')
        \<and> includes_str (message e) (js ''loading'') \<longrightarrow>
      errorText onLine e = js ''The AI model is starting up. Please wait a moment and try again.'')
   \<and> (onLine \<and> \<not> (includes_str (message e) (js ''Failed to fetch'') \<or> name e = js ''TypeError'')
        \<and> \<not> includes_str (message e) (js ''loading'')
        \<and> includes_str (message e) (js ''rate limit'') \<longrightarrow>
      errorText onLine e =
        js ''Too many requests. Please wait a moment before sending another message.'')
   \<and> (onLine \<and> \<not> (includes_str (message e) (js ''Failed to fetch'') \<or> name e = js ''TypeError'')
        \<and> \<not> includes_str (message e) (js ''loading'')
        \<and> \<not> includes_str (message e) (js ''rate limit'') \<longrightarrow>
      errorText onLine e =
        (if message e = [] then js ''I apologize, but I'm having trouble responding right now.''
         else js ''Error: '' @ message e)
      \<and> suffix (message e) (errorText onLine e))
   \<and> catchBlock onLine e w =
        (None, appendChild (Message (js ''error'') (TextContent (errorText onLine e))) w)"
proof -
  have c: "catchBlock onLine e w =
        (None, appendChild (Message (js ''error'') (TextContent (errorText onLine e))) w)"
    by (simp add: catchBlock_def addMessage_def js_user_not_bot)
  have g: "suffix (message e) (if message e = [] then js ''I apologize, but I'm having trouble responding right now.''
         else js ''Error: '' @ message e)"
    by (simp add: suffix_def)
  show ?thesis
  proof (intro conjI impI)
    assume "onLine \<and> \<not> (includes_str (message e) (js ''Failed to fetch'') \<or> name e = js ''TypeError'')
        \<and> \<not> includes_str (message e) (js ''loading'')
        \<and> \<not> includes_str (message e) (js ''rate limit'')"
    then have eq: "errorText onLine e =
        (if message e = [] then js ''I apologize, but I'm having trouble responding right now.''
         else js ''Error: '' @ message e)"
      by (simp add: errorText_def)
    then show "errorText onLine e =
        (if message e = [] then js ''I apologize, but I'm having trouble responding right now.''
         else js ''Error: '' @ message e)" .
    from g show "suffix (message e) (errorText onLine e)"
      unfolding eq .
  qed (simp_all add: errorText_def c)
qed

theorem errorText_priority_witness:
  "errorText False (JsError (js ''Error'') (js ''rate limit reached while loading'')) =
     js ''Network connection lost. Please check your internet connection and try again.''
   \<and> errorText True (JsError (js ''TypeError'') (js ''Failed to fetch'')) =
     js ''Unable to connect to the AI service. Please make sure the server is running on localhost:3001.''
   \<and> errorText True (JsError (js ''Error'') (js ''rate limit reached while loading'')) =
     js ''The AI model is starting up. Please wait a moment and try again.''
   \<and> errorText True (JsError (js ''Error'') (js ''rate limit reached'')) =
     js ''Too many requests. Please wait a moment before sending another message.''
   \<and> errorText True (JsError (js ''Error'') (js ''Server error: 500'')) =
     js ''Error: Server error: 500''"
proof -
  let ?both = "JsError (js ''Error'') (js ''rate limit reached while loading'')"
  let ?tf = "JsError (js ''TypeError'') (js ''Failed to fetch'')"
  let ?rate = "JsError (js ''Error'') (js ''rate limit reached'')"
  let ?srv = "JsError (js ''Error'') (js ''Server error: 500'')"
  have 1: "errorText False ?both =
     js ''Network connection lost. Please check your internet connection and try again.''"
    using errorText_priority [of False ?both freshWidget] by simp
  have 2: "errorText True ?tf =
     js ''Unable to connect to the AI service. Please make sure the server is running on localhost:3001.''"
    using errorText_priority [of True ?tf freshWidget] by simp
  have h3: "\<not> (includes_str (message ?both) (js ''Failed to fetch'') \<or> name ?both = js ''TypeError'')
      \<and> includes_str (message ?both) (js ''loading'')"
    by (simp add: js_def)
  have 3: "errorText True ?both = js ''The AI model is starting up. Please wait a moment and try again.''"
    using errorText_priority [of True ?both freshWidget] h3 by blast
  have h4: "\<not> (includes_str (message ?rate) (js ''Failed to fetch'') \<or> name ?rate = js ''TypeError'')
      \<and> \<not> includes_str (message ?rate) (js ''loading'')
      \<and> includes_str (message ?rate) (js ''rate limit'')"
    by (simp add: js_def)
  have 4: "errorText True ?rate =
     js ''Too many requests. Please wait a moment before sending another message.''"
    using errorText_priority [of True ?rate freshWidget] h4 by blast
  have h5: "\<not> (includes_str (message ?srv) (js ''Failed to fetch'') \<or> name ?srv = js ''TypeError'')
      \<and> \<not> includes_str (message ?srv) (js ''loading'')
      \<and> \<not> includes_str (message ?srv) (js ''rate limit'')
      \<and> message ?srv \<noteq> []"
    by (simp add: js_def)
  have "errorText True ?srv = js ''Error: '' @ message ?srv"
    using errorText_priority [of True ?srv freshWidget] h5 by simp
  then have 5: "errorText True ?srv = js ''Error: Server error: 500''"
    by (simp add: js_def)
  from 1 2 3 4 5 show ?thesis by blast
qed

subsection \<open>A dispatch from start to end\<close>







lemma removeFound_absent: "el \<notin> set xs \<Longrightarrow> removeFound el xs = xs"
  by (induction xs) auto

















subsection \<open>The typing indicator\<close>






lemma trim_hi: "trim (js ''hi'') = js ''hi''"
  by (simp add: trim_def js_def isWhiteSpace_def)

lemma fetch_first_ok:
  "fetchWithRetry (\<lambda>i. Resolves (Response 200 b)) MAX_RETRIES = ([Fetch 0], Returned (Response 200 b))"
  by (simp add: fetchWithRetry_three firstStop_def ok_def)




subsection \<open>The transcript under all operations\<close>

text \<open>
  What the amended statements on the typing indicator and on the transcript leave out.
  When the clear-chat handler runs while a dispatch waits, the finally block finds no
  indicator and the timer of the dispatch keeps running. When an earlier reply brought
  an element of the id \<open>typing-indicator\<close> into the transcript, the finally block of
  the next dispatch removes that element from the earlier entry and leaves the
  indicator of the dispatch and its timer.
\<close>

lemma timer_left_after_clear:
  "intervals (snd (sendMessage (\<lambda>m k. False) True
      (\<lambda>i. Resolves (Response 200 (Json (Other False []) (Str (js ''yo'')))))
      (\<lambda>k. if k = 0 then [ClearChat] else [])
      (freshWidget\<lparr>inputValue := js ''hi''\<rparr>))) = [1]
   \<and> chatMessages (snd (sendMessage (\<lambda>m k. False) True
      (\<lambda>i. Resolves (Response 200 (Json (Other False []) (Str (js ''yo'')))))
      (\<lambda>k. if k = 0 then [ClearChat] else [])
      (freshWidget\<lparr>inputValue := js ''hi''\<rparr>))) =
     [Greeting ([55357, 56395] @ js '' Hello! I'm Botlynx. How can I help you today?''),
      Message (js ''bot'') (InnerHTML (js ''<p>yo</p>'') 0)]"
proof -
  have m: "botMarkup (js ''yo'') = js ''<p>yo</p>''"
    by (simp add: botMarkup_def formattedText_plain js_def)
  have y: "js ''yo'' \<noteq> []" "js ''hi'' \<noteq> []" by (simp_all add: js_def)
  show ?thesis
    by (simp add: sendMessage_def trim_hi addMessage_def js_user_not_bot appendChild_def
        setLoadingState_def tryBlock_def fetch_first_ok ok_def m y freshWidget_def Let_def
        clearChat_def setInnerHTML_def)
qed

lemma indicator_left_by_reply_with_id:
  "chatMessages (snd (sendMessage (\<lambda>m k. m = js ''<p>old</p>'' \<and> k = 0) True
      (\<lambda>i. Resolves (Response 200 (Json (Other False []) (Str (js ''yo''))))) (\<lambda>k. [])
      (freshWidget\<lparr>chatMessages := [Message (js ''bot'') (InnerHTML (js ''<p>old</p>'') 0)],
                    inputValue := js ''hi''\<rparr>))) =
     [Message (js ''bot'') (InnerHTML (js ''<p>old</p>'') 1),
      Message (js ''user'') (TextContent (js ''hi'')),
      TypingIndicator 1,
      Message (js ''bot'') (InnerHTML (js ''<p>yo</p>'') 0)]
   \<and> intervals (snd (sendMessage (\<lambda>m k. m = js ''<p>old</p>'' \<and> k = 0) True
      (\<lambda>i. Resolves (Response 200 (Json (Other False []) (Str (js ''yo''))))) (\<lambda>k. [])
      (freshWidget\<lparr>chatMessages := [Message (js ''bot'') (InnerHTML (js ''<p>old</p>'') 0)],
                    inputValue := js ''hi''\<rparr>))) = [1]"
proof -
  have m: "botMarkup (js ''yo'') = js ''<p>yo</p>''"
    by (simp add: botMarkup_def formattedText_plain js_def)
  have y: "js ''yo'' \<noteq> []" "js ''hi'' \<noteq> []" by (simp_all add: js_def)
  show ?thesis
    by (simp add: sendMessage_def trim_hi addMessage_def js_user_not_bot appendChild_def
        setLoadingState_def tryBlock_def fetch_first_ok ok_def m y freshWidget_def Let_def)
qed




subsection \<open>The session identifier and the storage\<close>

lemma decimal_digits: "c \<in> set (decimal n) \<Longrightarrow> 48 \<le> c \<and> c \<le> 57"
proof (induction n arbitrary: c rule: decimal.induct)
  case (1 n)
  show ?case
  proof (cases "n < 10")
    case True
    with "1.prems" show ?thesis by (simp add: decimal.simps [of n])
  next
    case False
    have "n mod 10 < 10" by simp
    with False "1.prems" "1.IH" show ?thesis
      by (auto simp add: decimal.simps [of n])
  qed
qed

lemma decimal_not_empty: "decimal n \<noteq> []"
  by (simp add: decimal.simps [of n])

lemma decimal_inj: "decimal m = decimal n \<Longrightarrow> m = n"
proof (induction m arbitrary: n rule: decimal.induct)
  case (1 m)
  show ?case
  proof (cases "m < 10")
    case True
    show ?thesis
    proof (cases "n < 10")
      case n: True
      with True "1.prems" show ?thesis
        by (simp add: decimal.simps [of m] decimal.simps [of n])
    next
      case n: False
      with True "1.prems" decimal_not_empty [of "n div 10"] show ?thesis
        by (simp add: decimal.simps [of m] decimal.simps [of n] Cons_eq_append_conv)
    qed
  next
    case False
    show ?thesis
    proof (cases "n < 10")
      case n: True
      with False "1.prems" decimal_not_empty [of "m div 10"] show ?thesis
        by (simp add: decimal.simps [of m] decimal.simps [of n] append_eq_Cons_conv)
    next
      case n: False
      with False "1.prems" have "decimal (m div 10) = decimal (n div 10)" "m mod 10 = n mod 10"
        by (simp_all add: decimal.simps [of m] decimal.simps [of n])
      with False "1.IH" have "m div 10 = n div 10" "m mod 10 = n mod 10" by simp_all
      then show ?thesis by (metis div_mult_mod_eq)
    qed
  qed
qed

lemma split_at_mark:
  "a @ x # u = b @ x # v \<Longrightarrow> x \<notin> set a \<Longrightarrow> x \<notin> set b \<Longrightarrow> a = b \<and> u = v"
proof (induction a arbitrary: b)
  case Nil
  then show ?case by (cases b) auto
next
  case (Cons c a)
  then show ?case by (cases b) auto
qed

lemma generateSessionId_eq:
  assumes "95 \<notin> set r1" "95 \<notin> set r2"
  shows "generateSessionId r1 t1 = generateSessionId r2 t2
     \<longleftrightarrow> take 9 (drop 2 r1) = take 9 (drop 2 r2) \<and> t1 = t2"
proof
  assume "generateSessionId r1 t1 = generateSessionId r2 t2"
  then have eq: "take 9 (drop 2 r1) @ 95 # decimal t1 = take 9 (drop 2 r2) @ 95 # decimal t2"
    by (simp add: generateSessionId_def js_def)
  have "95 \<notin> set (take 9 (drop 2 r1))" "95 \<notin> set (take 9 (drop 2 r2))"
    using assms by (auto dest!: in_set_takeD in_set_dropD)
  with eq have "take 9 (drop 2 r1) = take 9 (drop 2 r2) \<and> decimal t1 = decimal t2"
    by (rule split_at_mark)
  then show "take 9 (drop 2 r1) = take 9 (drop 2 r2) \<and> t1 = t2"
    by (simp add: decimal_inj)
next
  assume "take 9 (drop 2 r1) = take 9 (drop 2 r2) \<and> t1 = t2"
  then show "generateSessionId r1 t1 = generateSessionId r2 t2"
    by (simp add: generateSessionId_def)
qed

lemma generateSessionId_not_empty: "generateSessionId rnd now \<noteq> []"
  by (simp add: generateSessionId_def js_def)

lemma initSession_fresh:
  "readable st \<Longrightarrow> writable st \<Longrightarrow> items st (js ''chatSessionId'') = None \<Longrightarrow>
   initSession st rnd now =
     Inr (generateSessionId rnd now,
          st\<lparr>items := (items st)(js ''chatSessionId'' \<mapsto> generateSessionId rnd now)\<rparr>)"
  by (simp add: initSession_def getItem_def setItem_def Let_def)

lemma initSession_again:
  assumes "initSession st rnd now = Inr (sid, st')"
  shows "sid \<noteq> [] \<and> readable st' \<and> items st' (js ''chatSessionId'') = Some sid"
proof (cases "items st (js ''chatSessionId'') \<noteq> None \<and> items st (js ''chatSessionId'') \<noteq> Some []")
  case True
  with assms show ?thesis
    by (auto simp add: initSession_def getItem_def split: if_splits)
next
  case False
  with assms show ?thesis
    by (auto simp add: initSession_def getItem_def setItem_def Let_def generateSessionId_not_empty
        split: if_splits)
qed

text \<open>
  C8 as stated fails: when reading the storage throws, the set-up of the session
  identifier throws too, and so does the script; when nothing is stored and writing
  throws, the same happens.
\<close>

theorem initSession_storage_blocked:
  "initSession \<lparr>readable = False, writable = False, items = Map.empty\<rparr>
       (js ''0.4fzyo82mvyr'') 1700000000000 =
     Inl (JsError (js ''SecurityError'') (js ''The operation is insecure.''))
   \<and> loadScript \<lparr>readable = False, writable = False, items = Map.empty\<rparr>
       (js ''0.4fzyo82mvyr'') 1700000000000 =
     Inl (JsError (js ''SecurityError'') (js ''The operation is insecure.''))
   \<and> initSession \<lparr>readable = True, writable = False, items = Map.empty\<rparr>
       (js ''0.4fzyo82mvyr'') 1700000000000 =
     Inl (JsError (js ''QuotaExceededError'') (js ''The quota has been exceeded.''))"
  by (simp add: loadScript_def initSession_def getItem_def setItem_def Let_def)

text \<open>
  C8, amended. The set-up of the session identifier throws exactly when reading the
  storage throws, or nothing (or the empty string) is stored and writing throws; the
  script then ends there and registers no listener. In every other case it gives a
  non-empty identifier, which the storage then holds, and the script goes on to register
  its listeners.
\<close>

theorem initSession_outcome:
  "(isl (initSession st rnd now) \<longleftrightarrow>
      \<not> readable st
      \<or> ((items st (js ''chatSessionId'') = None \<or> items st (js ''chatSessionId'') = Some [])
          \<and> \<not> writable st))
   \<and> (isl (initSession st rnd now) \<longrightarrow> isl (loadScript st rnd now))
   \<and> (\<forall>sid st'. initSession st rnd now = Inr (sid, st') \<longrightarrow>
         sid \<noteq> [] \<and> items st' (js ''chatSessionId'') = Some sid
         \<and> loadScript st rnd now = Inr \<lparr>sessionId = sid, sessionStore = st', listening = True\<rparr>)"
proof (intro conjI allI impI)
  show "isl (initSession st rnd now) \<longleftrightarrow>
      \<not> readable st
      \<or> ((items st (js ''chatSessionId'') = None \<or> items st (js ''chatSessionId'') = Some [])
          \<and> \<not> writable st)"
    by (auto simp add: initSession_def getItem_def setItem_def Let_def)
next
  assume "isl (initSession st rnd now)"
  then show "isl (loadScript st rnd now)"
    by (cases "initSession st rnd now") (simp_all add: loadScript_def)
next
  fix sid st' assume a: "initSession st rnd now = Inr (sid, st')"
  from initSession_again [OF a] show "sid \<noteq> []" "items st' (js ''chatSessionId'') = Some sid"
    by simp_all
  from a show "loadScript st rnd now = Inr \<lparr>sessionId = sid, sessionStore = st', listening = True\<rparr>"
    by (simp add: loadScript_def)
qed

theorem initSession_outcome_witness:
  "isl (loadScript \<lparr>readable = False, writable = True, items = Map.empty\<rparr> (js ''0.4fzyo82mvyr'') 1700000000000)
   \<and> loadScript \<lparr>readable = True, writable = False,
        items = [js ''chatSessionId'' \<mapsto> js ''session_abc_1'']\<rparr> (js ''0.4fzyo82mvyr'') 1700000000000 =
      Inr \<lparr>sessionId = js ''session_abc_1'',
           sessionStore = \<lparr>readable = True, writable = False,
             items = [js ''chatSessionId'' \<mapsto> js ''session_abc_1'']\<rparr>,
           listening = True\<rparr>"
proof -
  let ?blocked = "\<lparr>readable = False, writable = True, items = Map.empty\<rparr>"
  let ?kept = "\<lparr>readable = True, writable = False, items = [js ''chatSessionId'' \<mapsto> js ''session_abc_1'']\<rparr>"
  let ?r = "js ''0.4fzyo82mvyr''"
  note b = initSession_outcome [of ?blocked ?r 1700000000000]
  note k = initSession_outcome [of ?kept ?r 1700000000000]
  have "isl (initSession ?blocked ?r 1700000000000)"
    using b by simp
  with b have 1: "isl (loadScript ?blocked ?r 1700000000000)"
    by blast
  have ne: "js ''session_abc_1'' \<noteq> []" by (simp add: js_def)
  have i: "initSession ?kept ?r 1700000000000 = Inr (js ''session_abc_1'', ?kept)"
    using ne by (simp add: initSession_def getItem_def)
  with k have 2: "loadScript ?kept ?r 1700000000000 =
      Inr \<lparr>sessionId = js ''session_abc_1'', sessionStore = ?kept, listening = True\<rparr>"
    by blast
  from 1 2 show ?thesis by simp
qed

text \<open>
  C9 as stated fails: two tabs without a stored value, set up in the same millisecond
  with two different random strings that agree in the nine characters the identifier
  uses, get the same identifier.
\<close>

theorem sessionId_collision:
  "js ''0.4fzyo82mvyr1'' \<noteq> js ''0.4fzyo82mvyr2''
   \<and> map_sum id fst (initSession \<lparr>readable = True, writable = True, items = Map.empty\<rparr>
        (js ''0.4fzyo82mvyr1'') 1700000000000) = Inr (js ''session_4fzyo82mv_1700000000000'')
   \<and> map_sum id fst (initSession \<lparr>readable = True, writable = True, items = Map.empty\<rparr>
        (js ''0.4fzyo82mvyr2'') 1700000000000) = Inr (js ''session_4fzyo82mv_1700000000000'')"
  by (simp add: initSession_fresh generateSessionId_def decimal.simps js_def)

text \<open>
  C9, amended. Once the identifier is set up, setting it up again in the same tab (with
  the storage as the first set-up left it) gives the same identifier, whatever the
  random string and the clock. Two tabs without a stored value get the same identifier
  exactly when the nine characters taken from their random strings and their clock
  values are the same, and different identifiers otherwise (the random strings hold no
  underscore).
\<close>

theorem sessionId_stable:
  "(initSession st rnd now = Inr (sid, st') \<longrightarrow> initSession st' rnd' now' = Inr (sid, st'))
   \<and> (readable st1 \<and> writable st1 \<and> items st1 (js ''chatSessionId'') = None
       \<and> readable st2 \<and> writable st2 \<and> items st2 (js ''chatSessionId'') = None
       \<and> 95 \<notin> set r1 \<and> 95 \<notin> set r2 \<longrightarrow>
       (map_sum id fst (initSession st1 r1 t1) = map_sum id fst (initSession st2 r2 t2)
        \<longleftrightarrow> take 9 (drop 2 r1) = take 9 (drop 2 r2) \<and> t1 = t2))"
proof (intro conjI impI)
  assume a: "initSession st rnd now = Inr (sid, st')"
  from initSession_again [OF a] show "initSession st' rnd' now' = Inr (sid, st')"
    by (simp add: initSession_def getItem_def)
next
  assume a: "readable st1 \<and> writable st1 \<and> items st1 (js ''chatSessionId'') = None
       \<and> readable st2 \<and> writable st2 \<and> items st2 (js ''chatSessionId'') = None
       \<and> 95 \<notin> set r1 \<and> 95 \<notin> set r2"
  then have "map_sum id fst (initSession st1 r1 t1) = Inr (generateSessionId r1 t1)"
    "map_sum id fst (initSession st2 r2 t2) = Inr (generateSessionId r2 t2)"
    by (simp_all add: initSession_fresh)
  moreover from a have "generateSessionId r1 t1 = generateSessionId r2 t2
     \<longleftrightarrow> take 9 (drop 2 r1) = take 9 (drop 2 r2) \<and> t1 = t2"
    by (intro generateSessionId_eq) simp_all
  ultimately show "map_sum id fst (initSession st1 r1 t1) = map_sum id fst (initSession st2 r2 t2)
        \<longleftrightarrow> take 9 (drop 2 r1) = take 9 (drop 2 r2) \<and> t1 = t2"
    by simp
qed

theorem sessionId_stable_witness:
  "initSession \<lparr>readable = True, writable = True,
       items = [js ''chatSessionId'' \<mapsto> generateSessionId (js ''0.4fzyo82mvyr'') 1700000000000]\<rparr>
     (js ''0.9zzzzzzzzzz'') 1700000099999 =
     Inr (generateSessionId (js ''0.4fzyo82mvyr'') 1700000000000,
       \<lparr>readable = True, writable = True,
        items = [js ''chatSessionId'' \<mapsto> generateSessionId (js ''0.4fzyo82mvyr'') 1700000000000]\<rparr>)
   \<and> map_sum id fst (initSession \<lparr>readable = True, writable = True, items = Map.empty\<rparr>
        (js ''0.4fzyo82mvyr'') 1700000000000)
     \<noteq> map_sum id fst (initSession \<lparr>readable = True, writable = True, items = Map.empty\<rparr>
        (js ''0.4fzyo82mvyr'') 1700000000001)"
proof -
  let ?fresh = "\<lparr>readable = True, writable = True, items = Map.empty\<rparr>"
  let ?r = "js ''0.4fzyo82mvyr''"
  let ?sid = "generateSessionId ?r 1700000000000"
  let ?st = "\<lparr>readable = True, writable = True, items = [js ''chatSessionId'' \<mapsto> ?sid]\<rparr>"
  have first: "initSession ?fresh ?r 1700000000000 = Inr (?sid, ?st)"
    by (simp add: initSession_fresh)
  note T1 = sessionId_stable [of ?fresh ?r 1700000000000 ?sid ?st "js ''0.9zzzzzzzzzz''" 1700000099999]
  from T1 first have 1: "initSession ?st (js ''0.9zzzzzzzzzz'') 1700000099999 = Inr (?sid, ?st)"
    by blast
  have h: "readable ?fresh \<and> writable ?fresh \<and> items ?fresh (js ''chatSessionId'') = None
       \<and> readable ?fresh \<and> writable ?fresh \<and> items ?fresh (js ''chatSessionId'') = None
       \<and> 95 \<notin> set ?r \<and> 95 \<notin> set ?r"
    by (simp add: js_def)
  note T2 = sessionId_stable [where ?st1.0 = ?fresh and ?st2.0 = ?fresh and ?r1.0 = ?r and ?r2.0 = ?r
      and ?t1.0 = 1700000000000 and ?t2.0 = 1700000000001]
  from T2 h have "map_sum id fst (initSession ?fresh ?r 1700000000000) = map_sum id fst (initSession ?fresh ?r 1700000000001)
        \<longleftrightarrow> take 9 (drop 2 ?r) = take 9 (drop 2 ?r) \<and> (1700000000000::nat) = 1700000000001"
    by blast
  then have 2: "map_sum id fst (initSession ?fresh ?r 1700000000000)
      \<noteq> map_sum id fst (initSession ?fresh ?r 1700000000001)"
    by simp
  from 1 2 show ?thesis by blast
qed

subsection \<open>Markup characters in assistant text\<close>

lemma lineTail_result:
  "lineTail n s = Some (k, g) \<Longrightarrow>
   0 < k \<and> k \<le> n \<and> drop k s = g @ drop (k + length g) s"
proof (induction n)
  case 0
  then show ?case by simp
next
  case (Suc n)
  show ?case
  proof (cases "drop (Suc n) s")
    case Nil
    with Suc show ?thesis by auto
  next
    case (Cons c r)
    show ?thesis
    proof (cases "isLineTerminator c")
      case True
      with Cons Suc show ?thesis by auto
    next
      case False
      with Cons Suc.prems have k: "k = Suc n"
        and g: "g = takeWhile (\<lambda>x. \<not> isLineTerminator x) (drop (Suc n) s)"
        by auto
      have "drop (Suc n + length g) s = drop (length g) (drop (Suc n) s)"
        by (simp add: add.commute)
      also have "\<dots> = dropWhile (\<lambda>x. \<not> isLineTerminator x) (drop (Suc n) s)"
        unfolding g by (simp add: dropWhile_eq_drop)
      finally have "g @ drop (Suc n + length g) s = drop (Suc n) s"
        unfolding g by simp
      with k show ?thesis by simp
    qed
  qed
qed

lemma take_white:
  "k \<le> length (takeWhile isWhiteSpace s) \<Longrightarrow> \<forall>c\<in>set (take k s). isWhiteSpace c"
proof (induction s arbitrary: k)
  case Nil
  show ?case by simp
next
  case (Cons c s)
  then show ?case by (cases k) (auto split: if_splits)
qed

lemma filter_white_prefix:
  assumes "\<And>c. P c \<Longrightarrow> \<not> isWhiteSpace c" and "k \<le> length (takeWhile isWhiteSpace s)"
  shows "filter P (take k s) = []"
  using take_white [OF assms(2)] assms(1) by (auto simp add: filter_empty_conv)

lemma lineRule_keeps:
  "\<not> P m \<Longrightarrow> (\<And>c. P c \<Longrightarrow> \<not> isWhiteSpace c) \<Longrightarrow>
   subseq (filter P s) (filter P (lineRule m pre post bol s))"
proof (induction m pre post bol s rule: lineRule.induct)
  case (1 m pre post bol)
  show ?case by simp
next
  case (2 m pre post bol c s)
  note pm = "2.prems"(1) and white = "2.prems"(2)
  show ?case
  proof (cases "bol \<and> c = m")
    case False
    with "2.IH"(3) [OF False pm white] show ?thesis by auto
  next
    case True
    show ?thesis
    proof (cases "lineTail (length (takeWhile isWhiteSpace s)) s")
      case None
      with True "2.IH"(1) [OF True None pm white] pm show ?thesis by auto
    next
      case (Some kg)
      obtain k g where kg: "kg = (k, g)" by (cases kg)
      from lineTail_result [OF Some [unfolded kg]]
      have k: "k \<le> length (takeWhile isWhiteSpace s)"
        and d: "drop k s = g @ drop (k + length g) s" by simp_all
      have "filter P s = filter P (take k s) @ filter P (drop k s)"
        by (metis append_take_drop_id filter_append)
      also have "\<dots> = filter P g @ filter P (drop (k + length g) s)"
        using filter_white_prefix [of P k s] white k d by simp
      finally have s: "filter P s = filter P g @ filter P (drop (k + length g) s)" .
      have ih: "subseq (filter P (drop (k + length g) s))
          (filter P (lineRule m pre post (isLineTerminator (last g)) (drop (k + length g) s)))"
        using "2.IH"(2) [OF True Some kg [symmetric] pm white] .
      have "subseq (filter P g @ filter P (drop (k + length g) s))
          (filter P pre @ filter P g @ filter P post
            @ filter P (lineRule m pre post (isLineTerminator (last g)) (drop (k + length g) s)))"
        by (intro subseq_drop_many list_emb_append_mono subseq_order.refl ih)
      with True Some kg s pm show ?thesis by simp
    qed
  qed
qed

lemma closing_result: "closing s = Some g \<Longrightarrow> s = g @ [42, 42] @ drop (length g + 2) s"
proof (induction s arbitrary: g rule: closing.induct)
  case (1 c d s)
  show ?case
  proof (cases "c = 42 \<and> d = 42")
    case True
    with 1 show ?thesis by simp
  next
    case False
    with "1.prems" obtain g' where g': "closing (d # s) = Some g'" "g = c # g'" "\<not> isLineTerminator c"
      by (auto split: if_splits)
    with False "1.IH" [of g'] show ?thesis by simp
  qed
qed simp_all

lemma bold_keeps:
  assumes "\<not> P 42"
  shows "subseq (filter P s) (filter P (bold s))"
proof (induction s rule: bold.induct)
  case (1 c d s)
  show ?case
  proof (cases "c = 42 \<and> d = 42")
    case False
    with 1 show ?thesis by auto
  next
    case True
    show ?thesis
    proof (cases "closing s")
      case None
      with True 1 show ?thesis by auto
    next
      case (Some g)
      from closing_result [OF Some] have "filter P s = filter P (g @ [42, 42] @ drop (length g + 2) s)"
        by simp
      then have s: "filter P s = filter P g @ filter P (drop (length g + 2) s)"
        using assms by simp
      have ih: "subseq (filter P (drop (length g + 2) s)) (filter P (bold (drop (length g + 2) s)))"
        using "1.IH"(2) True Some by simp
      have "subseq (filter P g @ filter P (drop (length g + 2) s))
          (filter P (js ''<strong>'') @ filter P g @ filter P (js ''</strong>'')
            @ filter P (bold (drop (length g + 2) s)))"
        by (intro subseq_drop_many list_emb_append_mono subseq_order.refl ih)
      with True Some s assms show ?thesis by simp
    qed
  qed
qed simp_all

lemma paragraphs_keeps:
  assumes "\<not> P 10"
  shows "subseq (filter P s) (filter P (paragraphs s))"
proof (induction s rule: paragraphs.induct)
  case (1 c d s)
  show ?case
  proof (cases "c = 10 \<and> d = 10")
    case True
    with 1 have "subseq (filter P s) (filter P (paragraphs s))" by simp
    then have "subseq (filter P s) (filter P (js ''</p><p>'') @ filter P (paragraphs s))"
      by (rule subseq_drop_many)
    with True assms show ?thesis by simp
  next
    case False
    with 1 show ?thesis by auto
  qed
qed simp_all

lemma lineBreaks_keeps:
  assumes "\<not> P 10"
  shows "subseq (filter P s) (filter P (lineBreaks s))"
proof (induction s)
  case Nil
  show ?case by simp
next
  case (Cons c s)
  show ?case
  proof (cases "c = 10")
    case True
    from Cons have "subseq (filter P s) (filter P (js ''<br>'') @ filter P (lineBreaks s))"
      by (rule subseq_drop_many)
    with True assms show ?thesis by simp
  next
    case False
    with Cons show ?thesis by auto
  qed
qed

lemma formattedText_keeps:
  assumes "\<not> P 35" "\<not> P 42" "\<not> P 45" and "\<And>c. P c \<Longrightarrow> \<not> isWhiteSpace c"
  shows "subseq (filter P s) (formattedText s)"
proof -
  have ten: "\<not> P 10" using assms(4) [of 10] by (auto simp add: isWhiteSpace_def)
  have "subseq (filter P s) (filter P (headers s))"
    unfolding headers_def using assms(1,4) by (intro lineRule_keeps) auto
  also have "subseq \<dots> (filter P (bold (headers s)))"
    using assms(2) by (rule bold_keeps)
  also have "subseq \<dots> (filter P (bullets (bold (headers s))))"
    unfolding bullets_def using assms(3,4) by (intro lineRule_keeps) auto
  also have "subseq \<dots> (filter P (paragraphs (bullets (bold (headers s)))))"
    using ten by (rule paragraphs_keeps)
  also have "subseq \<dots> (filter P (lineBreaks (paragraphs (bullets (bold (headers s))))))"
    using ten by (rule lineBreaks_keeps)
  also have "subseq \<dots> (lineBreaks (paragraphs (bullets (bold (headers s)))))"
    by simp
  finally show ?thesis by (simp add: formattedText_def)
qed

text \<open>
  C10. The formatter escapes nothing. For every text of the sender \<open>bot\<close> the
  characters \<open><\<close>, \<open>>\<close> and \<open>&\<close> of the text are all in the markup that goes to
  \<open>innerHTML\<close>, in their order, and a text without \<open>#\<close>, \<open>*\<close>, \<open>-\<close> and line
  feed, whatever else it holds, goes unchanged between \<open><p>\<close> and \<open></p>\<close>. For
  the senders \<open>user\<close> and \<open>error\<close> the text is set as text content.
\<close>

theorem botMarkup_not_escaped:
  "addMessage (Str text) (js ''bot'') w =
     (None, appendChild (Message (js ''bot'')
        (InnerHTML (js ''<p>'' @ formattedText text @ js ''</p>'') 0)) w)
   \<and> subseq (filter (\<lambda>c. c = 60 \<or> c = 62 \<or> c = 38) text) (formattedText text)
   \<and> (35 \<notin> set text \<and> 42 \<notin> set text \<and> 45 \<notin> set text \<and> 10 \<notin> set text \<longrightarrow>
        formattedText text = text)
   \<and> addMessage (Str text) (js ''user'') w =
        (None, appendChild (Message (js ''user'') (TextContent text)) w)
   \<and> addMessage (Str text) (js ''error'') w =
        (None, appendChild (Message (js ''error'') (TextContent text)) w)"
proof -
  have k: "subseq (filter (\<lambda>c. c = 60 \<or> c = 62 \<or> c = 38) text) (formattedText text)"
    by (rule formattedText_keeps) (auto simp add: isWhiteSpace_def)
  show ?thesis
    using k js_user_not_bot by (simp add: addMessage_def botMarkup_def formattedText_plain)
qed

theorem botMarkup_not_escaped_witness:
  "chatMessages (snd (addMessage (Str (js ''<img src=x onerror=alert(1)>'')) (js ''bot'') freshWidget)) =
     [Message (js ''bot'') (InnerHTML (js ''<p><img src=x onerror=alert(1)></p>'') 0)]
   \<and> chatMessages (snd (addMessage (Str (js ''<img src=x onerror=alert(1)>'')) (js ''user'') freshWidget)) =
     [Message (js ''user'') (TextContent (js ''<img src=x onerror=alert(1)>''))]"
proof -
  let ?t = "js ''<img src=x onerror=alert(1)>''"
  note T = botMarkup_not_escaped [of ?t freshWidget]
  have h: "35 \<notin> set ?t \<and> 42 \<notin> set ?t \<and> 45 \<notin> set ?t \<and> 10 \<notin> set ?t"
    by (simp add: js_def)
  from T h have f: "formattedText ?t = ?t"
    by blast
  from T have b: "addMessage (Str ?t) (js ''bot'') freshWidget =
        (None, appendChild (Message (js ''bot'') (InnerHTML (js ''<p>'' @ formattedText ?t @ js ''</p>'') 0)) freshWidget)"
    by blast
  from T have u: "addMessage (Str ?t) (js ''user'') freshWidget =
        (None, appendChild (Message (js ''user'') (TextContent ?t)) freshWidget)"
    by blast
  have m: "js ''<p>'' @ ?t @ js ''</p>'' = js ''<p><img src=x onerror=alert(1)></p>''"
    by (simp add: js_def)
  show ?thesis
    unfolding b u f by (simp add: appendChild_def freshWidget_def m)
qed

end
